theory Spec2Isabelle
  imports Main
begin

section \<open>The stream adapter: AiSdkToChunkAdapter.ts\<close>

subsection \<open>JavaScript values the adapter touches\<close>

text \<open>
  Tool arguments, tool results and error payloads are passed on as they come, whatever
  they are: \<^verbatim>\<open>undefined\<close>, \<^verbatim>\<open>null\<close>, a boolean, a number (an integer or
  \<^verbatim>\<open>NaN\<close>), a string, or an object with its properties (an \<^verbatim>\<open>Error\<close>
  instance is an object with a \<open>message\<close> property). \<^verbatim>\<open>x || d\<close> tests the
  truthiness of \<open>x\<close>: every object is truthy, the empty one too.
\<close>

datatype js_value =
    JUndefined
  | JNull
  | JBool bool
  | JNumber int
  | JNaN
  | JString string
  | JObject "(string \<times> js_value) list"

type_synonym json = js_value

definition empty_object :: json where
  "empty_object = JObject []"

fun truthy :: "js_value \<Rightarrow> bool" where
  "truthy JUndefined = False"
| "truthy JNull = False"
| "truthy (JBool b) = b"
| "truthy (JNumber n) = (n \<noteq> 0)"
| "truthy JNaN = False"
| "truthy (JString s) = (s \<noteq> [])"
| "truthy (JObject ps) = True"

definition or_value :: "js_value \<Rightarrow> js_value \<Rightarrow> js_value" where
  "or_value v d = (if truthy v then v else d)"

text \<open>
  \<^verbatim>\<open>x || d\<close> on an optional string: \<^verbatim>\<open>undefined\<close> and the empty string are falsy.
  On an optional number: \<^verbatim>\<open>undefined\<close>, \<^verbatim>\<open>NaN\<close> (both \<open>None\<close>) and \<open>0\<close> are falsy.
\<close>

definition or_string :: "string option \<Rightarrow> string \<Rightarrow> string" where
  "or_string v d = (case v of None \<Rightarrow> d | Some s \<Rightarrow> if s = [] then d else s)"

definition or_number :: "int option \<Rightarrow> int \<Rightarrow> int" where
  "or_number v d = (case v of None \<Rightarrow> d | Some n \<Rightarrow> if n = 0 then d else n)"

text \<open>
  What the adapter can throw: a \<^verbatim>\<open>TypeError\<close> from reading a property of
  \<^verbatim>\<open>undefined\<close> or from \<^verbatim>\<open>getReader()\<close> on a locked stream (the name of
  the property or of the method is kept), and the rejection of a promise it awaits
  (\<^verbatim>\<open>reader.read()\<close>, \<^verbatim>\<open>aiSdkResult.text\<close>).
\<close>

datatype exn = TypeError string | Rejected string

subsection \<open>Upstream records: TextStreamPart\<close>

text \<open>
  A field the code guards with \<^verbatim>\<open>|| ''\<close>, \<^verbatim>\<open>|| 0\<close>, \<^verbatim>\<open>|| {}\<close> or a
  conditional is optional here; a field it reads unguarded is required.
  \<^verbatim>\<open>chunk.usage\<close> is optional because the code tests it
  (\<^verbatim>\<open>chunk.usage ? ... : undefined\<close>). Token counts are integers. The payload of
  an error record, the arguments and the result of a tool and the text of an argument
  delta are any JavaScript value. \<open>Unhandled\<close> stands for every record type the
  \<^verbatim>\<open>switch\<close> has no case for.
\<close>

record LanguageModelUsage =
  completionTokens :: "int option"
  promptTokens :: "int option"
  totalTokens :: "int option"

record SourceInfo =
  source_id :: string
  source_title :: "string option"
  source_url :: "string option"

datatype TextStreamPart =
    Text_delta "string option"
  | Reasoning "string option"
  | Reasoning_signature "string option"
  | Redacted_reasoning "string option"
  | Tool_call_streaming_start string string
  | Tool_call_delta string string json
  | Tool_call string string json
  | Tool_result string string json json
  | Step_finish "LanguageModelUsage option"
  | Finish "LanguageModelUsage option"
  | Source_part SourceInfo
  | File_part string
  | Error_part js_value
  | Unhandled string

subsection \<open>Normalized events: Chunk\<close>

record Usage =
  completion_tokens :: int
  prompt_tokens :: int
  total_tokens :: int

record Metrics =
  metrics_completion_tokens :: int
  time_completion_millsec :: int

record Response =
  response_text :: string
  response_reasoning_content :: string
  usage :: Usage
  metrics :: "Metrics option"

record ToolCall =
  call_id :: string
  call_name :: string
  call_args :: json

record MCPTool =
  tool_id :: string
  serverId :: string
  serverName :: string
  tool_name :: string
  description :: string
  inputSchema_type :: string
  inputSchema_title :: string
  inputSchema_properties :: json

record MCPToolResponse =
  response_id :: string
  tool :: MCPTool
  arguments :: json
  status :: string
  response :: json
  toolCallId :: string

record KnowledgeReference =
  knowledge_id :: int
  knowledge_content :: string
  sourceUrl :: string
  knowledge_type :: string

datatype Chunk =
    TEXT_DELTA string
  | THINKING_DELTA string
  | THINKING_COMPLETE string
  | MCP_TOOL_CREATED "ToolCall list"
  | MCP_TOOL_IN_PROGRESS "MCPToolResponse list"
  | MCP_TOOL_COMPLETE "MCPToolResponse list"
  | BLOCK_COMPLETE Response
  | TEXT_COMPLETE string
  | LLM_RESPONSE_COMPLETE Response
  | KNOWLEDGE_SEARCH_COMPLETE "KnowledgeReference list"
  | IMAGE_COMPLETE string "string list"
  | ERROR js_value

subsection \<open>The accumulator and one translation step\<close>

record Final =
  final_text :: string
  final_reasoning_content :: string

text \<open>
  The tool descriptor both tool cases build, and the response snapshot both finish cases
  build. The snapshot reads \<^verbatim>\<open>chunk.usage.completionTokens\<close> before it tests
  \<^verbatim>\<open>chunk.usage\<close>: with no usage object the property read throws.
\<close>

definition ai_sdk_tool :: "string \<Rightarrow> MCPTool" where
  "ai_sdk_tool toolName =
     \<lparr>tool_id = toolName, serverId = ''ai-sdk'', serverName = ''AI SDK'',
      tool_name = toolName, description = [], inputSchema_type = ''object'',
      inputSchema_title = toolName, inputSchema_properties = empty_object\<rparr>"

definition response_of :: "Final \<Rightarrow> LanguageModelUsage option \<Rightarrow> exn + Response" where
  "response_of final u =
     (case u of
        None \<Rightarrow> Inl (TypeError ''completionTokens'')
      | Some us \<Rightarrow>
          Inr \<lparr>response_text = final_text final,
               response_reasoning_content = final_reasoning_content final,
               usage = \<lparr>completion_tokens = or_number (completionTokens us) 0,
                        prompt_tokens = or_number (promptTokens us) 0,
                        total_tokens = or_number (totalTokens us) 0\<rparr>,
               metrics = Some \<lparr>metrics_completion_tokens = or_number (completionTokens us) 0,
                               time_completion_millsec = 0\<rparr>\<rparr>)"

text \<open>
  \<open>convertAndEmitChunk\<close> returns the accumulator after the step, the events handed to
  \<^verbatim>\<open>onChunk\<close> in order, and the exception the step raised, if any. Its first two
  arguments are the environment: JavaScript's \<^verbatim>\<open>Number\<close> on strings (\<open>None\<close> is
  \<^verbatim>\<open>NaN\<close>) and the reading of \<^verbatim>\<open>Date.now()\<close> during this step.
\<close>

fun convertAndEmitChunk ::
  "(string \<Rightarrow> int option) \<Rightarrow> int \<Rightarrow> TextStreamPart \<Rightarrow> Final \<Rightarrow> Final \<times> Chunk list \<times> exn option"
where
  "convertAndEmitChunk Number_js now (Text_delta textDelta) final =
     (let final1 = final\<lparr>final_text := final_text final @ or_string textDelta []\<rparr>;
          delta = TEXT_DELTA (or_string textDelta [])
      in if final_reasoning_content final1 \<noteq> []
         then (final1\<lparr>final_reasoning_content := []\<rparr>,
               [delta, THINKING_COMPLETE (final_reasoning_content final1)], None)
         else (final1, [delta], None))"
| "convertAndEmitChunk Number_js now (Reasoning textDelta) final =
     (final\<lparr>final_reasoning_content := final_reasoning_content final @ or_string textDelta []\<rparr>,
      [THINKING_DELTA (or_string textDelta [])], None)"
| "convertAndEmitChunk Number_js now (Reasoning_signature signature) final =
     (final, [THINKING_COMPLETE (or_string signature [])], None)"
| "convertAndEmitChunk Number_js now (Redacted_reasoning data) final =
     (final, [THINKING_DELTA (or_string data [])], None)"
| "convertAndEmitChunk Number_js now (Tool_call_streaming_start callId toolName) final =
     (final,
      [MCP_TOOL_CREATED [\<lparr>call_id = callId, call_name = toolName, call_args = empty_object\<rparr>]],
      None)"
| "convertAndEmitChunk Number_js now (Tool_call_delta callId toolName argsTextDelta) final =
     (final,
      [MCP_TOOL_IN_PROGRESS
         [\<lparr>response_id = callId, tool = ai_sdk_tool toolName, arguments = empty_object,
           status = ''invoking'', response = argsTextDelta, toolCallId = callId\<rparr>]],
      None)"
| "convertAndEmitChunk Number_js now (Tool_call callId toolName args) final =
     (final,
      [MCP_TOOL_CREATED [\<lparr>call_id = callId, call_name = toolName, call_args = args\<rparr>]],
      None)"
| "convertAndEmitChunk Number_js now (Tool_result callId toolName args result) final =
     (final,
      [MCP_TOOL_COMPLETE
         [\<lparr>response_id = callId, tool = ai_sdk_tool toolName,
           arguments = or_value args empty_object,
           status = ''done'', response = result, toolCallId = callId\<rparr>]],
      None)"
| "convertAndEmitChunk Number_js now (Step_finish u) final =
     (case response_of final u of
        Inl e \<Rightarrow> (final, [], Some e)
      | Inr r \<Rightarrow> (final, [BLOCK_COMPLETE r], None))"
| "convertAndEmitChunk Number_js now (Finish u) final =
     (case response_of final u of
        Inl e \<Rightarrow> (final, [TEXT_COMPLETE (final_text final)], Some e)
      | Inr r \<Rightarrow> (final, [TEXT_COMPLETE (final_text final), LLM_RESPONSE_COMPLETE r], None))"
| "convertAndEmitChunk Number_js now (Source_part src) final =
     (final,
      [KNOWLEDGE_SEARCH_COMPLETE
         [\<lparr>knowledge_id = or_number (Number_js (source_id src)) now,
           knowledge_content = or_string (source_title src) [],
           sourceUrl = or_string (source_url src) [],
           knowledge_type = ''url''\<rparr>]],
      None)"
| "convertAndEmitChunk Number_js now (File_part base64) final =
     (final, [IMAGE_COMPLETE ''base64'' [base64]], None)"
| "convertAndEmitChunk Number_js now (Error_part err) final =
     (final, [ERROR (or_value err (JString ''Unknown error''))], None)"
| "convertAndEmitChunk Number_js now (Unhandled kind) final =
     (final, [], None)"

subsection \<open>The read loop, the reader's lock and processStream\<close>

text \<open>
  A stream delivers its records in order and then either reports \<^verbatim>\<open>done\<close> or has
  \<^verbatim>\<open>reader.read()\<close> reject (\<open>stream_failure\<close>). Streams are finite here. A
  stream that already has a reader is locked, and \<^verbatim>\<open>getReader()\<close> throws on it.
  The sink \<^verbatim>\<open>onChunk\<close> records the events in order and does not throw.
\<close>

record ReadableStream =
  stream_locked :: bool
  stream_records :: "TextStreamPart list"
  stream_failure :: "exn option"

text \<open>
  The body of \<^verbatim>\<open>while (true)\<close>: \<open>clock i\<close> is the reading of \<^verbatim>\<open>Date.now()\<close>
  while the record read by the \<open>i\<close>-th call of \<^verbatim>\<open>reader.read()\<close> is translated.
  An exception leaves the loop at once.
\<close>

fun readLoop ::
  "(string \<Rightarrow> int option) \<Rightarrow> (nat \<Rightarrow> int) \<Rightarrow> nat \<Rightarrow> exn option \<Rightarrow> TextStreamPart list
     \<Rightarrow> Final \<Rightarrow> Final \<times> Chunk list \<times> exn option"
where
  "readLoop Number_js clock i failure [] final = (final, [], failure)"
| "readLoop Number_js clock i failure (chunk # rest) final =
     (case convertAndEmitChunk Number_js (clock i) chunk final of
        (final1, out, Some e) \<Rightarrow> (final1, out, Some e)
      | (final1, out, None) \<Rightarrow>
          (case readLoop Number_js clock (Suc i) failure rest final1 of
             (final2, out2, r) \<Rightarrow> (final2, out @ out2, r)))"

record Reader =
  lock_held :: bool
  releaseLock_calls :: nat

definition getReader :: "ReadableStream \<Rightarrow> exn + Reader" where
  "getReader fullStream =
     (if stream_locked fullStream then Inl (TypeError ''getReader'')
      else Inr \<lparr>lock_held = True, releaseLock_calls = 0\<rparr>)"

definition releaseLock :: "Reader \<Rightarrow> Reader" where
  "releaseLock reader =
     reader\<lparr>lock_held := False, releaseLock_calls := Suc (releaseLock_calls reader)\<rparr>"

text \<open>
  What a call of \<open>readFullStream\<close> leaves behind: the accumulator, the events the sink
  received, the reader (\<open>None\<close> when none was acquired) and the exception that leaves
  the call, if any.
\<close>

record Run =
  run_final :: Final
  emitted :: "Chunk list"
  run_reader :: "Reader option"
  raised :: "exn option"

text \<open>
  \<^verbatim>\<open>getReader()\<close> stands before the \<^verbatim>\<open>try\<close>: when it throws, nothing has been
  read, no reader exists and nothing is released (the accumulator was not created yet;
  the field holds the empty one). After it,
  \<^verbatim>\<open>try { loop } finally { reader.releaseLock() }\<close>: the release runs after the loop
  however the loop ended, and the loop's exception, if any, propagates afterwards.
\<close>

definition readFullStream ::
  "(string \<Rightarrow> int option) \<Rightarrow> (nat \<Rightarrow> int) \<Rightarrow> ReadableStream \<Rightarrow> Run"
where
  "readFullStream Number_js clock fullStream =
     (case getReader fullStream of
        Inl e \<Rightarrow>
          \<lparr>run_final = \<lparr>final_text = [], final_reasoning_content = []\<rparr>, emitted = [],
           run_reader = None, raised = Some e\<rparr>
      | Inr reader \<Rightarrow>
          (let final = \<lparr>final_text = [], final_reasoning_content = []\<rparr>
           in case readLoop Number_js clock 0 (stream_failure fullStream)
                     (stream_records fullStream) final of
                (final1, out, r) \<Rightarrow>
                  \<lparr>run_final = final1, emitted = out,
                   run_reader = Some (releaseLock reader), raised = r\<rparr>))"

record StreamResult =
  fullStream :: "ReadableStream option"
  text_promise :: "exn + string"

record Outcome =
  sink :: "Chunk list"
  releases :: nat
  resolved :: "exn + string"

definition processStream ::
  "(string \<Rightarrow> int option) \<Rightarrow> (nat \<Rightarrow> int) \<Rightarrow> StreamResult \<Rightarrow> Outcome"
where
  "processStream Number_js clock aiSdkResult =
     (case fullStream aiSdkResult of
        None \<Rightarrow> \<lparr>sink = [], releases = 0, resolved = text_promise aiSdkResult\<rparr>
      | Some s \<Rightarrow>
          (let run = readFullStream Number_js clock s
           in \<lparr>sink = emitted run,
               releases = (case run_reader run of
                             None \<Rightarrow> 0
                           | Some reader \<Rightarrow> releaseLock_calls reader),
               resolved = (case raised run of
                             Some e \<Rightarrow> Inl e
                           | None \<Rightarrow> text_promise aiSdkResult)\<rparr>))"

subsection \<open>Reading a run\<close>

text \<open>
  The upstream sequence, on a stream that is free to read, that ends with
  \<^verbatim>\<open>done\<close>. A stream whose consumer is abandoned after \<open>k\<close> records: cancelled, its
  next read reports \<^verbatim>\<open>done\<close> (\<open>r = None\<close>); aborted, its next read is rejected.
  The fragments the text-delta records carry, as the text-delta case reads them; the
  payloads of the \<open>TEXT_DELTA\<close> events in a list of events.
\<close>

definition exhausted :: "TextStreamPart list \<Rightarrow> ReadableStream" where
  "exhausted cs = \<lparr>stream_locked = False, stream_records = cs, stream_failure = None\<rparr>"

definition abandoned_after :: "nat \<Rightarrow> exn option \<Rightarrow> ReadableStream \<Rightarrow> ReadableStream" where
  "abandoned_after k r s = s\<lparr>stream_records := take k (stream_records s), stream_failure := r\<rparr>"

fun text_fragments :: "TextStreamPart list \<Rightarrow> string list" where
  "text_fragments [] = []"
| "text_fragments (Text_delta d # cs) = or_string d [] # text_fragments cs"
| "text_fragments (_ # cs) = text_fragments cs"

fun text_deltas :: "Chunk list \<Rightarrow> string list" where
  "text_deltas [] = []"
| "text_deltas (TEXT_DELTA s # es) = s # text_deltas es"
| "text_deltas (_ # es) = text_deltas es"

text \<open>
  A step-finish or finish record with no usage object; a terminal record; a source
  record whose id \<^verbatim>\<open>Number\<close> turns into \<^verbatim>\<open>NaN\<close> or \<open>0\<close>, so that the step reads
  the clock.
\<close>

fun usage_absent :: "TextStreamPart \<Rightarrow> bool" where
  "usage_absent (Step_finish None) = True"
| "usage_absent (Finish None) = True"
| "usage_absent _ = False"

fun is_terminal :: "TextStreamPart \<Rightarrow> bool" where
  "is_terminal (Finish u) = True"
| "is_terminal (Error_part e) = True"
| "is_terminal _ = False"

fun reads_clock :: "(string \<Rightarrow> int option) \<Rightarrow> TextStreamPart \<Rightarrow> bool" where
  "reads_clock Number_js (Source_part src) = (or_number (Number_js (source_id src)) 0 = 0)"
| "reads_clock Number_js _ = False"

text \<open>
  The environment of the examples, in place of \<^verbatim>\<open>Number\<close>: a string of decimal
  digits is its value (the empty string is \<open>0\<close>) and every other string is
  \<^verbatim>\<open>NaN\<close>. It gives what JavaScript gives on the two ids the examples use,
  \<open>''42''\<close> and \<open>''abc''\<close>. It is not \<^verbatim>\<open>Number\<close> elsewhere: a sign, blanks
  around the digits, a fraction, an exponent or a hexadecimal literal are numbers in
  JavaScript, and a digit string above \<open>2 ^ 53\<close> is rounded there. General statements
  quantify over the function instead.
\<close>

definition Number_decimal :: "string \<Rightarrow> int option" where
  "Number_decimal s =
     (if list_all (\<lambda>c. 48 \<le> (of_char c :: nat) \<and> (of_char c :: nat) \<le> 57) s
      then Some (foldl (\<lambda>a c. 10 * a + (int (of_char c) - 48)) 0 s)
      else None)"

section \<open>The provider registry and the client factory\<close>

subsection \<open>AiProviderRegistry\<close>

text \<open>
  A provider's \<^verbatim>\<open>import\<close> thunk is kept as the module specifier it loads; the loader
  itself is an argument of \<open>createClient\<close>. The registry is a
  \<^verbatim>\<open>Map<string, ProviderConfig>\<close>.
\<close>

record ProviderConfig =
  provider_id :: string
  provider_name :: string
  import_specifier :: string
  creatorFunctionName :: string

type_synonym registry = "string \<rightharpoonup> ProviderConfig"

definition provider_config :: "string \<Rightarrow> string \<Rightarrow> string \<Rightarrow> string \<Rightarrow> ProviderConfig" where
  "provider_config i n m c =
     \<lparr>provider_id = i, provider_name = n, import_specifier = m, creatorFunctionName = c\<rparr>"

definition providers :: "ProviderConfig list" where
  "providers =
    [provider_config ''openai'' ''OpenAI'' ''@ai-sdk/openai'' ''createOpenAI'',
     provider_config ''openai-compatible'' ''OpenAI Compatible'' ''@ai-sdk/openai-compatible''
       ''createOpenAICompatible'',
     provider_config ''anthropic'' ''Anthropic'' ''@ai-sdk/anthropic'' ''createAnthropic'',
     provider_config ''google'' ''Google Generative AI'' ''@ai-sdk/google''
       ''createGoogleGenerativeAI'',
     provider_config ''google-vertex'' ''Google Vertex AI'' ''@ai-sdk/google-vertex''
       ''createVertex'',
     provider_config ''mistral'' ''Mistral AI'' ''@ai-sdk/mistral'' ''createMistral'',
     provider_config ''xai'' ''xAI (Grok)'' ''@ai-sdk/xai'' ''createXai'',
     provider_config ''azure'' ''Azure OpenAI'' ''@ai-sdk/azure'' ''createAzure'',
     provider_config ''bedrock'' ''Amazon Bedrock'' ''@ai-sdk/amazon-bedrock''
       ''createAmazonBedrock'',
     provider_config ''cohere'' ''Cohere'' ''@ai-sdk/cohere'' ''createCohere'',
     provider_config ''groq'' ''Groq'' ''@ai-sdk/groq'' ''createGroq'',
     provider_config ''together'' ''Together.ai'' ''@ai-sdk/togetherai'' ''createTogetherAI'',
     provider_config ''fireworks'' ''Fireworks'' ''@ai-sdk/fireworks'' ''createFireworks'',
     provider_config ''deepseek'' ''DeepSeek'' ''@ai-sdk/deepseek'' ''createDeepSeek'',
     provider_config ''cerebras'' ''Cerebras'' ''@ai-sdk/cerebras'' ''createCerebras'',
     provider_config ''deepinfra'' ''DeepInfra'' ''@ai-sdk/deepinfra'' ''createDeepInfra'',
     provider_config ''replicate'' ''Replicate'' ''@ai-sdk/replicate'' ''createReplicate'',
     provider_config ''perplexity'' ''Perplexity'' ''@ai-sdk/perplexity'' ''createPerplexity'',
     provider_config ''fal'' ''Fal AI'' ''@ai-sdk/fal'' ''createFal'',
     provider_config ''vercel'' ''Vercel'' ''@ai-sdk/vercel'' ''createVercel'',
     provider_config ''ollama'' ''Ollama'' ''ollama-ai-provider'' ''createOllama'',
     provider_config ''qwen'' ''Qwen'' ''qwen-ai-provider'' ''createQwen'',
     provider_config ''zhipu'' ''Zhipu AI'' ''zhipu-ai-provider'' ''createZhipu'',
     provider_config ''anthropic-vertex'' ''Anthropic Vertex AI'' ''anthropic-vertex-ai''
       ''createAnthropicVertex'',
     provider_config ''openrouter'' ''OpenRouter'' ''@openrouter/ai-sdk-provider''
       ''createOpenRouter'']"

definition registerProvider :: "registry \<Rightarrow> ProviderConfig \<Rightarrow> registry" where
  "registerProvider reg config = reg(provider_id config \<mapsto> config)"

definition initializeProviders :: registry where
  "initializeProviders = foldl registerProvider Map.empty providers"

definition getProvider :: "registry \<Rightarrow> string \<Rightarrow> ProviderConfig option" where
  "getProvider reg i = reg i"

definition isSupported :: "registry \<Rightarrow> string \<Rightarrow> bool" where
  "isSupported reg i = (reg i \<noteq> None)"

definition cleanup :: "registry \<Rightarrow> registry" where
  "cleanup reg = Map.empty"

subsection \<open>ApiClientFactory\<close>

text \<open>
  Thrown values: a \<^verbatim>\<open>ClientFactoryError\<close> (message, providerId, cause), any other
  \<^verbatim>\<open>Error\<close> with its message, or a value that is not an \<^verbatim>\<open>Error\<close>.
  An imported module maps an export's name to its value; the creator function of a
  provider takes the options and returns the provider, which is called with the model id
  when it is a function.
\<close>

datatype js_error =
    ClientFactoryError string "string option" "js_error option"
  | Plain_Error string
  | Thrown_value

datatype 'm provider_value = Callable "string \<Rightarrow> js_error + 'm" | Not_callable

datatype ('o, 'm) export_value =
    Function "'o \<Rightarrow> js_error + 'm provider_value"
  | Not_function

type_synonym ('o, 'm) module = "string \<Rightarrow> ('o, 'm) export_value option"

definition quoted :: "string \<Rightarrow> string" where
  "quoted s = [CHR 0x22] @ s @ [CHR 0x22]"

text \<open>The \<^verbatim>\<open>catch\<close> block: a \<^verbatim>\<open>ClientFactoryError\<close> is rethrown, anything else is wrapped.\<close>

definition catch_createClient :: "string \<Rightarrow> js_error \<Rightarrow> js_error" where
  "catch_createClient providerId error =
     (case error of
        ClientFactoryError m p c \<Rightarrow> error
      | Plain_Error m \<Rightarrow>
          ClientFactoryError
            (''Failed to create client for provider '' @ quoted providerId @ '': '' @ m)
            (Some providerId) (Some error)
      | Thrown_value \<Rightarrow>
          ClientFactoryError
            (''Failed to create client for provider '' @ quoted providerId @ '': Unknown error'')
            (Some providerId) None)"

text \<open>
  \<open>createClient\<close> returns the module specifiers it asked the loader for, in order, and
  the model or the error it ends with. \<open>modelId\<close> is optional: its default is
  \<open>''default''\<close>.
\<close>

definition createClient ::
  "registry \<Rightarrow> (string \<Rightarrow> js_error + ('o, 'm) module) \<Rightarrow> string \<Rightarrow> string option \<Rightarrow> 'o
     \<Rightarrow> string list \<times> (js_error + 'm)"
where
  "createClient reg dynamic_import providerId modelId options =
     (let model = (case modelId of None \<Rightarrow> ''default'' | Some m \<Rightarrow> m);
          effectiveProviderId =
            (if isSupported reg providerId then providerId else ''openai-compatible'')
      in case getProvider reg effectiveProviderId of
           None \<Rightarrow>
             ([], Inl (ClientFactoryError
                         (''Provider '' @ quoted effectiveProviderId @ '' is not registered'')
                         (Some providerId) None))
         | Some providerConfig \<Rightarrow>
             ([import_specifier providerConfig],
              (case
                 (case dynamic_import (import_specifier providerConfig) of
                    Inl e \<Rightarrow> Inl e
                  | Inr module \<Rightarrow>
                      (case module (creatorFunctionName providerConfig) of
                         Some (Function creatorFunction) \<Rightarrow>
                           (case creatorFunction options of
                              Inl e \<Rightarrow> Inl e
                            | Inr (Callable provider) \<Rightarrow> provider model
                            | Inr Not_callable \<Rightarrow>
                                Inl (ClientFactoryError
                                       (''Unknown model access pattern for provider ''
                                          @ quoted effectiveProviderId)
                                       None None))
                       | _ \<Rightarrow>
                           Inl (ClientFactoryError
                                  (''Creator function ''
                                     @ quoted (creatorFunctionName providerConfig)
                                     @ '' not found in the imported module for provider ''
                                     @ quoted effectiveProviderId)
                                  None None)))
               of
                 Inl e \<Rightarrow> Inl (catch_createClient providerId e)
               | Inr m \<Rightarrow> Inr m)))"

record ClientInfo =
  info_id :: string
  info_name :: string
  info_isSupported :: bool
  effectiveProvider :: string

definition getClientInfo :: "registry \<Rightarrow> string \<Rightarrow> ClientInfo" where
  "getClientInfo reg providerId =
     (let effectiveProviderId =
            (if isSupported reg providerId then providerId else ''openai-compatible'');
          provider = getProvider reg effectiveProviderId
      in \<lparr>info_id = providerId,
          info_name = (case provider of
                         None \<Rightarrow> providerId
                       | Some p \<Rightarrow> if provider_name p = [] then providerId else provider_name p),
          info_isSupported = isSupported reg providerId,
          effectiveProvider = effectiveProviderId\<rparr>)"

section \<open>Values the examples use\<close>

text \<open>
  A usage object that reports three completion tokens and nothing else, and a module
  loader that knows one module, \<open>''@ai-sdk/openai-compatible''\<close>, whose
  \<^verbatim>\<open>createOpenAICompatible\<close> returns a provider that builds the model
  \<open>''model '' @ modelId\<close>.
\<close>

definition usage3 :: LanguageModelUsage where
  "usage3 = \<lparr>completionTokens = Some 3, promptTokens = None, totalTokens = None\<rparr>"

definition stub_import :: "string \<Rightarrow> js_error + (unit, string) module" where
  "stub_import specifier =
     (if specifier = ''@ai-sdk/openai-compatible''
      then Inr (\<lambda>name. if name = ''createOpenAICompatible''
                        then Some (Function (\<lambda>options. Inr (Callable (\<lambda>modelId. Inr (''model '' @ modelId)))))
                        else None)
      else Inl (Plain_Error ''Cannot find module''))"

section \<open>Properties of the stream adapter\<close>

subsection \<open>Steps and runs\<close>

lemmas run_defs = readFullStream_def processStream_def exhausted_def getReader_def
  releaseLock_def response_of_def or_string_def or_number_def or_value_def

lemma text_deltas_append: "text_deltas (xs @ ys) = text_deltas xs @ text_deltas ys"
  by (induction xs rule: text_deltas.induct) auto

lemma text_fragments_append: "text_fragments (xs @ ys) = text_fragments xs @ text_fragments ys"
  by (induction xs rule: text_fragments.induct) auto

text \<open>A step raises only on a step-finish or finish record with no usage object.\<close>

lemma step_no_raise:
  "\<not> usage_absent c \<Longrightarrow> snd (snd (convertAndEmitChunk N now c f)) = None"
  by (induction c rule: usage_absent.induct)
    (auto simp: response_of_def Let_def split: option.splits)

lemma step_text_deltas:
  "text_deltas (fst (snd (convertAndEmitChunk N now c f))) = text_fragments [c]"
  by (cases c) (auto simp: response_of_def Let_def split: option.splits)

lemma step_final_text:
  "final_text (fst (convertAndEmitChunk N now c f)) = final_text f @ concat (text_fragments [c])"
  by (cases c) (auto simp: response_of_def Let_def split: option.splits)

lemma terminal_keeps_final: "is_terminal t \<Longrightarrow> fst (convertAndEmitChunk N now t f) = f"
  by (cases t) (auto simp: response_of_def split: option.splits)

lemma step_clock:
  "\<not> reads_clock N c \<Longrightarrow> convertAndEmitChunk N now1 c f = convertAndEmitChunk N now2 c f"
  by (cases c) (auto simp: or_number_def split: option.splits if_splits)

text \<open>The loop over \<open>xs @ ys\<close> is the loop over \<open>xs\<close>, then, unless it raised, over \<open>ys\<close>.\<close>

lemma readLoop_append:
  "readLoop N clk i fl (xs @ ys) f =
     (case readLoop N clk i None xs f of
        (f1, o1, Some e) \<Rightarrow> (f1, o1, Some e)
      | (f1, o1, None) \<Rightarrow>
          (case readLoop N clk (i + length xs) fl ys f1 of
             (f2, o2, r) \<Rightarrow> (f2, o1 @ o2, r)))"
  by (induction xs arbitrary: i f) (auto split: prod.splits option.splits)

lemma readLoop_Cons_ok:
  assumes "\<not> usage_absent c"
  shows "readLoop N clk i fl (c # cs) f =
     (case convertAndEmitChunk N (clk i) c f of
        (f1, o1, r1) \<Rightarrow>
          (case readLoop N clk (Suc i) fl cs f1 of (f2, o2, r) \<Rightarrow> (f2, o1 @ o2, r)))"
  using step_no_raise[OF assms, of N "clk i" f]
  by (auto split: prod.splits option.splits)

lemma readLoop_text_deltas:
  "\<forall>c\<in>set cs. \<not> usage_absent c \<Longrightarrow>
   text_deltas (fst (snd (readLoop N clk i fl cs f))) = text_fragments cs"
proof (induction cs arbitrary: i f)
  case Nil
  then show ?case by simp
next
  case (Cons c cs)
  then have ok: "\<not> usage_absent c" and rest: "\<forall>c\<in>set cs. \<not> usage_absent c" by simp_all
  have "text_fragments (c # cs) = text_fragments [c] @ text_fragments cs"
    using text_fragments_append[of "[c]" cs] by simp
  then show ?case
    using Cons.IH[OF rest, of "Suc i" "fst (convertAndEmitChunk N (clk i) c f)"]
      step_text_deltas[of N "clk i" c f]
    by (simp add: readLoop_Cons_ok[OF ok] text_deltas_append case_prod_beta
        del: readLoop.simps)
qed

lemma readLoop_final_text:
  "snd (snd (readLoop N clk i fl cs f)) = None \<Longrightarrow>
   final_text (fst (readLoop N clk i fl cs f)) = final_text f @ concat (text_fragments cs)"
proof (induction cs arbitrary: i f)
  case Nil
  then show ?case by simp
next
  case (Cons c cs)
  obtain f1 o1 r1 where st: "convertAndEmitChunk N (clk i) c f = (f1, o1, r1)"
    by (cases "convertAndEmitChunk N (clk i) c f") auto
  from Cons.prems st have r1: "r1 = None"
    by (cases r1) auto
  have frag: "text_fragments (c # cs) = text_fragments [c] @ text_fragments cs"
    using text_fragments_append[of "[c]" cs] by simp
  from Cons.prems st r1 have "snd (snd (readLoop N clk (Suc i) fl cs f1)) = None"
    by (simp add: case_prod_beta)
  from Cons.IH[OF this] step_final_text[of N "clk i" c f] st r1 frag
  show ?case by (simp add: case_prod_beta)
qed

lemma readLoop_clock:
  "\<forall>c\<in>set cs. \<not> reads_clock N c \<Longrightarrow>
   readLoop N clock1 i fl cs f = readLoop N clock2 j fl cs f"
proof (induction cs arbitrary: i j f)
  case Nil
  then show ?case by simp
next
  case (Cons c cs)
  then have c: "\<not> reads_clock N c" and rest: "\<forall>c\<in>set cs. \<not> reads_clock N c" by simp_all
  show ?case
    using step_clock[OF c, of "clock1 i" f "clock2 j"] Cons.IH[OF rest, of "Suc i" _ "Suc j"]
    by (simp split: prod.splits option.splits)
qed

text \<open>The fields of a run on a stream that is free to read, read off the loop.\<close>

lemma emitted_run:
  "\<not> stream_locked s \<Longrightarrow>
   emitted (readFullStream N clk s) =
     fst (snd (readLoop N clk 0 (stream_failure s) (stream_records s)
       \<lparr>final_text = [], final_reasoning_content = []\<rparr>))"
  by (simp add: readFullStream_def getReader_def Let_def case_prod_beta)

lemma final_run:
  "\<not> stream_locked s \<Longrightarrow>
   run_final (readFullStream N clk s) =
     fst (readLoop N clk 0 (stream_failure s) (stream_records s)
       \<lparr>final_text = [], final_reasoning_content = []\<rparr>)"
  by (simp add: readFullStream_def getReader_def Let_def case_prod_beta)

lemma raised_run:
  "\<not> stream_locked s \<Longrightarrow>
   raised (readFullStream N clk s) =
     snd (snd (readLoop N clk 0 (stream_failure s) (stream_records s)
       \<lparr>final_text = [], final_reasoning_content = []\<rparr>))"
  by (simp add: readFullStream_def getReader_def Let_def case_prod_beta)

lemma reader_run:
  "\<not> stream_locked s \<Longrightarrow>
   run_reader (readFullStream N clk s) = Some \<lparr>lock_held = False, releaseLock_calls = 1\<rparr>"
  by (simp add: readFullStream_def getReader_def releaseLock_def Let_def case_prod_beta)

lemma locked_run:
  "stream_locked s \<Longrightarrow>
   readFullStream N clk s =
     \<lparr>run_final = \<lparr>final_text = [], final_reasoning_content = []\<rparr>, emitted = [],
      run_reader = None, raised = Some (TypeError ''getReader'')\<rparr>"
  by (simp add: readFullStream_def getReader_def)

text \<open>A run that raised nothing read a stream that was free and ended with \<^verbatim>\<open>done\<close>.\<close>

lemma readLoop_no_failure:
  "snd (snd (readLoop N clk i fl cs f)) = None \<Longrightarrow> fl = None"
  by (induction cs arbitrary: i f) (auto simp: case_prod_beta split: option.splits)

lemma quiet_run_exhausted:
  assumes "raised (readFullStream N clk s) = None"
  shows "s = exhausted (stream_records s)"
proof -
  have free: "\<not> stream_locked s"
    using assms by (auto simp: locked_run)
  then have "stream_failure s = None"
    using assms readLoop_no_failure[of N clk 0 "stream_failure s" "stream_records s"]
    by (simp add: raised_run)
  with free show ?thesis by (cases s) (simp add: exhausted_def)
qed

lemma run_prefix:
  assumes "raised (readFullStream N clk (exhausted xs)) = None"
  shows "readLoop N clk 0 None xs \<lparr>final_text = [], final_reasoning_content = []\<rparr> =
           (run_final (readFullStream N clk (exhausted xs)),
            emitted (readFullStream N clk (exhausted xs)), None)"
  using assms
  by (simp add: readFullStream_def getReader_def exhausted_def Let_def case_prod_beta prod_eq_iff)

lemma run_append:
  assumes "readLoop N clk 0 None xs \<lparr>final_text = [], final_reasoning_content = []\<rparr> = (f1, o1, None)"
  shows "readFullStream N clk
           \<lparr>stream_locked = False, stream_records = xs @ ys, stream_failure = fl\<rparr> =
           \<lparr>run_final = fst (readLoop N clk (length xs) fl ys f1),
            emitted = o1 @ fst (snd (readLoop N clk (length xs) fl ys f1)),
            run_reader = Some \<lparr>lock_held = False, releaseLock_calls = 1\<rparr>,
            raised = snd (snd (readLoop N clk (length xs) fl ys f1))\<rparr>"
  by (simp add: readFullStream_def getReader_def releaseLock_def Let_def readLoop_append assms
      case_prod_beta)

subsection \<open>Terminal records\<close>

text \<open>
  C1 says that nothing is emitted and the accumulator no longer changes once a finish or
  error record has been processed. The loop has no such state: after a finish record, a
  text-delta record still emits its \<open>TEXT_DELTA\<close> and is appended to the answer text.
\<close>

theorem events_after_finish:
  "emitted (readFullStream Number_decimal (\<lambda>i. 0)
      (exhausted [Finish (Some usage3), Text_delta (Some ''late'')])) =
     emitted (readFullStream Number_decimal (\<lambda>i. 0) (exhausted [Finish (Some usage3)]))
     @ [TEXT_DELTA ''late'']
   \<and> emitted (readFullStream Number_decimal (\<lambda>i. 0)
      (exhausted [Finish (Some usage3), Text_delta (Some ''late'')])) \<noteq>
     emitted (readFullStream Number_decimal (\<lambda>i. 0) (exhausted [Finish (Some usage3)]))
   \<and> final_text (run_final (readFullStream Number_decimal (\<lambda>i. 0)
      (exhausted [Finish (Some usage3)]))) = []
   \<and> final_text (run_final (readFullStream Number_decimal (\<lambda>i. 0)
      (exhausted [Finish (Some usage3), Text_delta (Some ''late'')]))) = ''late''"
  by (simp add: run_defs usage3_def)

text \<open>
  C1, as amended. A finish or error record does not end the translation. It leaves the
  accumulator as it was, and when the records up to and including it were translated
  without an exception, the events of the whole sequence are the events up to and
  including the terminal record followed by the events the loop emits for the later
  records, started from that accumulator; the final accumulator is the one the loop
  reaches over the later records.
\<close>

theorem records_after_terminal_are_translated:
  assumes "is_terminal t"
      and "raised (readFullStream N clk (exhausted (xs @ [t]))) = None"
  shows "emitted (readFullStream N clk \<lparr>stream_locked = False, stream_records = xs @ t # ys, stream_failure = fl\<rparr>) =
           emitted (readFullStream N clk (exhausted (xs @ [t]))) @
           fst (snd (readLoop N clk (Suc (length xs)) fl ys
                       (run_final (readFullStream N clk (exhausted (xs @ [t]))))))
       \<and> run_final (readFullStream N clk \<lparr>stream_locked = False, stream_records = xs @ t # ys, stream_failure = fl\<rparr>) =
           fst (readLoop N clk (Suc (length xs)) fl ys
                  (run_final (readFullStream N clk (exhausted (xs @ [t])))))
       \<and> run_final (readFullStream N clk (exhausted (xs @ [t]))) =
           run_final (readFullStream N clk (exhausted xs))"
proof -
  define f1 where "f1 = run_final (readFullStream N clk (exhausted (xs @ [t])))"
  define o1 where "o1 = emitted (readFullStream N clk (exhausted (xs @ [t])))"
  define init where "init = \<lparr>final_text = [], final_reasoning_content = []\<rparr>"
  have L: "readLoop N clk 0 None (xs @ [t]) \<lparr>final_text = [], final_reasoning_content = []\<rparr>
             = (f1, o1, None)"
    unfolding f1_def o1_def by (rule run_prefix[OF assms(2)])
  have whole: "readFullStream N clk \<lparr>stream_locked = False, stream_records = (xs @ [t]) @ ys, stream_failure = fl\<rparr> =
      \<lparr>run_final = fst (readLoop N clk (length (xs @ [t])) fl ys f1),
       emitted = o1 @ fst (snd (readLoop N clk (length (xs @ [t])) fl ys f1)),
       run_reader = Some \<lparr>lock_held = False, releaseLock_calls = 1\<rparr>,
       raised = snd (snd (readLoop N clk (length (xs @ [t])) fl ys f1))\<rparr>"
    by (rule run_append[OF L])
  have e1: "emitted (readFullStream N clk \<lparr>stream_locked = False, stream_records = xs @ t # ys, stream_failure = fl\<rparr>) =
      o1 @ fst (snd (readLoop N clk (Suc (length xs)) fl ys f1))"
    using whole by simp
  have e2: "run_final (readFullStream N clk \<lparr>stream_locked = False, stream_records = xs @ t # ys, stream_failure = fl\<rparr>) =
      fst (readLoop N clk (Suc (length xs)) fl ys f1)"
    using whole by simp
  obtain g1 p1 r1 where P: "readLoop N clk 0 None xs init = (g1, p1, r1)"
    by (cases "readLoop N clk 0 None xs init") auto
  have r1: "r1 = None"
    using L P by (cases r1) (simp_all add: readLoop_append init_def)
  have pre: "run_final (readFullStream N clk (exhausted xs)) = g1"
    using P by (simp add: readFullStream_def getReader_def exhausted_def Let_def init_def)
  have "f1 = fst (convertAndEmitChunk N (clk (length xs)) t g1)"
    using L P r1 by (simp add: readLoop_append init_def case_prod_beta split: option.splits)
  then have e3: "f1 = run_final (readFullStream N clk (exhausted xs))"
    using terminal_keeps_final[OF assms(1)] pre by simp
  show ?thesis
    unfolding f1_def[symmetric] o1_def[symmetric] using e1 e2 e3 by simp
qed

theorem records_after_terminal_example:
  "emitted (readFullStream Number_decimal (\<lambda>i. 0)
      \<lparr>stream_locked = False, stream_records = [Text_delta (Some ''Hi'')] @ Error_part JUndefined # [Reasoning (Some ''hm'')],
       stream_failure = None\<rparr>) =
     [TEXT_DELTA ''Hi'', ERROR (JString ''Unknown error''), THINKING_DELTA ''hm'']"
proof -
  have t: "is_terminal (Error_part JUndefined)" by simp
  have r: "raised (readFullStream Number_decimal (\<lambda>i. 0)
             (exhausted ([Text_delta (Some ''Hi'')] @ [Error_part JUndefined]))) = None"
    by (simp add: run_defs)
  show ?thesis
    using records_after_terminal_are_translated[OF t r, of "[Reasoning (Some ''hm'')]" None]
    by (simp add: run_defs)
qed

subsection \<open>Usage snapshots\<close>

text \<open>
  When the usage object is there and its numeric fields are missing, every derived field
  of the snapshot is \<open>0\<close> and nothing is raised.
\<close>

lemma usage_fields_default_to_zero:
  "convertAndEmitChunk N now
      (Step_finish (Some \<lparr>completionTokens = None, promptTokens = None, totalTokens = None\<rparr>)) f =
     (f, [BLOCK_COMPLETE \<lparr>response_text = final_text f,
            response_reasoning_content = final_reasoning_content f,
            usage = \<lparr>completion_tokens = 0, prompt_tokens = 0, total_tokens = 0\<rparr>,
            metrics = Some \<lparr>metrics_completion_tokens = 0, time_completion_millsec = 0\<rparr>\<rparr>], None)"
  by (simp add: response_of_def or_number_def)

text \<open>
  C2 says that a step-finish or finish record whose usage object is missing raises
  nothing and yields a snapshot of zeros. The code reads
  \<^verbatim>\<open>chunk.usage.completionTokens\<close> first: a step-finish record with no usage object
  emits nothing and raises \<^verbatim>\<open>TypeError\<close>, a finish record emits its
  \<open>TEXT_COMPLETE\<close> and raises before \<open>LLM_RESPONSE_COMPLETE\<close>, and the exception
  leaves \<open>processStream\<close>.
\<close>

theorem missing_usage_object_raises:
  "convertAndEmitChunk N now (Step_finish None) f = (f, [], Some (TypeError ''completionTokens''))
   \<and> convertAndEmitChunk N now (Finish None) f =
       (f, [TEXT_COMPLETE (final_text f)], Some (TypeError ''completionTokens''))
   \<and> processStream N clk
        \<lparr>fullStream = Some (exhausted [Text_delta (Some ''Hi''), Finish None]),
         text_promise = Inr ''Hi''\<rparr> =
       \<lparr>sink = [TEXT_DELTA ''Hi'', TEXT_COMPLETE ''Hi''], releases = 1,
        resolved = Inl (TypeError ''completionTokens'')\<rparr>"
  by (simp add: run_defs)

subsection \<open>What processStream resolves to\<close>

text \<open>
  C3 says that \<open>processStream\<close> resolves to the concatenation of the text-delta
  fragments it processed. It resolves to \<^verbatim>\<open>aiSdkResult.text\<close>, whatever the
  stream carried: here the stream carries two fragments and the text promise holds the
  second only.
\<close>

theorem processStream_ignores_accumulated_text:
  "resolved (processStream Number_decimal (\<lambda>i. 0)
      \<lparr>fullStream = Some (exhausted [Text_delta (Some ''Let me look. ''), Step_finish (Some usage3),
                                      Text_delta (Some ''Done.''), Finish (Some usage3)]),
       text_promise = Inr ''Done.''\<rparr>) = Inr ''Done.''
   \<and> concat (text_fragments [Text_delta (Some ''Let me look. ''), Step_finish (Some usage3),
                              Text_delta (Some ''Done.''), Finish (Some usage3)])
       = ''Let me look. Done.''
   \<and> resolved (processStream Number_decimal (\<lambda>i. 0)
      \<lparr>fullStream = Some (exhausted [Text_delta (Some ''Let me look. ''), Step_finish (Some usage3),
                                      Text_delta (Some ''Done.''), Finish (Some usage3)]),
       text_promise = Inr ''Done.''\<rparr>)
       \<noteq> Inr (concat (text_fragments [Text_delta (Some ''Let me look. ''),
                      Step_finish (Some usage3), Text_delta (Some ''Done.''), Finish (Some usage3)]))
   \<and> raised (readFullStream Number_decimal (\<lambda>i. 0)
        (exhausted [Text_delta (Some ''Let me look. ''), Step_finish (Some usage3),
                    Text_delta (Some ''Done.''), Finish (Some usage3)])) = None"
  by (simp add: run_defs usage3_def)

text \<open>
  C3, as amended. When the stream is read to its end without an exception,
  \<open>processStream\<close> resolves to the outcome of \<^verbatim>\<open>aiSdkResult.text\<close>, after every
  event of the run has reached the sink; with no \<^verbatim>\<open>fullStream\<close> it resolves to
  the same promise at once. The concatenation, in order, of the fragments of the
  text-delta records is the answer text of the accumulator, and the completion events
  carry it: a finish record that follows these records emits \<open>TEXT_COMPLETE\<close> and
  \<open>LLM_RESPONSE_COMPLETE\<close> with that text, a step-finish record emits
  \<open>BLOCK_COMPLETE\<close> with it.
\<close>

theorem processStream_resolves_to_text_promise:
  assumes "raised (readFullStream N clk s) = None"
  shows "resolved (processStream N clk \<lparr>fullStream = Some s, text_promise = t\<rparr>) = t
       \<and> sink (processStream N clk \<lparr>fullStream = Some s, text_promise = t\<rparr>)
           = emitted (readFullStream N clk s)
       \<and> final_text (run_final (readFullStream N clk s)) = concat (text_fragments (stream_records s))
       \<and> resolved (processStream N clk \<lparr>fullStream = None, text_promise = t\<rparr>) = t
       \<and> emitted (readFullStream N clk (exhausted (stream_records s @ [Finish (Some u)]))) =
           emitted (readFullStream N clk s) @
           [TEXT_COMPLETE (concat (text_fragments (stream_records s))),
            LLM_RESPONSE_COMPLETE
              \<lparr>response_text = concat (text_fragments (stream_records s)),
               response_reasoning_content =
                 final_reasoning_content (run_final (readFullStream N clk s)),
               usage = \<lparr>completion_tokens = or_number (completionTokens u) 0,
                        prompt_tokens = or_number (promptTokens u) 0,
                        total_tokens = or_number (totalTokens u) 0\<rparr>,
               metrics = Some \<lparr>metrics_completion_tokens = or_number (completionTokens u) 0,
                               time_completion_millsec = 0\<rparr>\<rparr>]
       \<and> emitted (readFullStream N clk (exhausted (stream_records s @ [Step_finish (Some u)]))) =
           emitted (readFullStream N clk s) @
           [BLOCK_COMPLETE
              \<lparr>response_text = concat (text_fragments (stream_records s)),
               response_reasoning_content =
                 final_reasoning_content (run_final (readFullStream N clk s)),
               usage = \<lparr>completion_tokens = or_number (completionTokens u) 0,
                        prompt_tokens = or_number (promptTokens u) 0,
                        total_tokens = or_number (totalTokens u) 0\<rparr>,
               metrics = Some \<lparr>metrics_completion_tokens = or_number (completionTokens u) 0,
                               time_completion_millsec = 0\<rparr>\<rparr>]"
proof -
  define xs where "xs = stream_records s"
  define f1 where "f1 = run_final (readFullStream N clk (exhausted xs))"
  define o1 where "o1 = emitted (readFullStream N clk (exhausted xs))"
  have s: "s = exhausted xs"
    unfolding xs_def by (rule quiet_run_exhausted[OF assms])
  have quiet: "raised (readFullStream N clk (exhausted xs)) = None"
    using assms s by simp
  have L: "readLoop N clk 0 None xs \<lparr>final_text = [], final_reasoning_content = []\<rparr> = (f1, o1, None)"
    unfolding f1_def o1_def by (rule run_prefix[OF quiet])
  have acc: "final_text f1 = concat (text_fragments xs)"
    using readLoop_final_text[of N clk 0 None xs "\<lparr>final_text = [], final_reasoning_content = []\<rparr>"] L
    by simp
  have p1: "resolved (processStream N clk \<lparr>fullStream = Some (exhausted xs), text_promise = t\<rparr>) = t"
    using quiet by (simp add: processStream_def Let_def)
  have p2: "sink (processStream N clk \<lparr>fullStream = Some (exhausted xs), text_promise = t\<rparr>) = o1"
    by (simp add: processStream_def Let_def o1_def)
  have p4: "resolved (processStream N clk \<lparr>fullStream = None, text_promise = t\<rparr>) = t"
    by (simp add: processStream_def)
  have fin: "emitted (readFullStream N clk (exhausted (xs @ [Finish (Some u)]))) =
      o1 @ fst (snd (readLoop N clk (length xs) None [Finish (Some u)] f1))"
    unfolding exhausted_def by (simp add: run_append[OF L])
  have stp: "emitted (readFullStream N clk (exhausted (xs @ [Step_finish (Some u)]))) =
      o1 @ fst (snd (readLoop N clk (length xs) None [Step_finish (Some u)] f1))"
    unfolding exhausted_def by (simp add: run_append[OF L])
  have p5: "emitted (readFullStream N clk (exhausted (xs @ [Finish (Some u)]))) =
      o1 @ [TEXT_COMPLETE (concat (text_fragments xs)),
            LLM_RESPONSE_COMPLETE
              \<lparr>response_text = concat (text_fragments xs),
               response_reasoning_content = final_reasoning_content f1,
               usage = \<lparr>completion_tokens = or_number (completionTokens u) 0,
                        prompt_tokens = or_number (promptTokens u) 0,
                        total_tokens = or_number (totalTokens u) 0\<rparr>,
               metrics = Some \<lparr>metrics_completion_tokens = or_number (completionTokens u) 0,
                               time_completion_millsec = 0\<rparr>\<rparr>]"
    using acc by (simp add: fin response_of_def)
  have p6: "emitted (readFullStream N clk (exhausted (xs @ [Step_finish (Some u)]))) =
      o1 @ [BLOCK_COMPLETE
              \<lparr>response_text = concat (text_fragments xs),
               response_reasoning_content = final_reasoning_content f1,
               usage = \<lparr>completion_tokens = or_number (completionTokens u) 0,
                        prompt_tokens = or_number (promptTokens u) 0,
                        total_tokens = or_number (totalTokens u) 0\<rparr>,
               metrics = Some \<lparr>metrics_completion_tokens = or_number (completionTokens u) 0,
                               time_completion_millsec = 0\<rparr>\<rparr>]"
    using acc by (simp add: stp response_of_def)
  have recs: "stream_records (exhausted xs) = xs"
    by (simp add: exhausted_def)
  show ?thesis
    unfolding xs_def[symmetric]
    unfolding s recs f1_def[symmetric] o1_def[symmetric]
    using p1 p2 acc p4 p5 p6 by simp
qed

theorem processStream_scenario_A:
  "emitted (readFullStream Number_decimal (\<lambda>i. 0)
      (exhausted ([Text_delta (Some ''Hi''), Text_delta (Some '' there'')] @ [Finish (Some usage3)]))) =
     [TEXT_DELTA ''Hi'', TEXT_DELTA '' there'', TEXT_COMPLETE ''Hi there'',
      LLM_RESPONSE_COMPLETE
        \<lparr>response_text = ''Hi there'', response_reasoning_content = [],
         usage = \<lparr>completion_tokens = 3, prompt_tokens = 0, total_tokens = 0\<rparr>,
         metrics = Some \<lparr>metrics_completion_tokens = 3, time_completion_millsec = 0\<rparr>\<rparr>]
   \<and> resolved (processStream Number_decimal (\<lambda>i. 0)
        \<lparr>fullStream = Some (exhausted [Text_delta (Some ''Hi''), Text_delta (Some '' there''),
                                        Finish (Some usage3)]),
         text_promise = Inr ''Hi there''\<rparr>) = Inr ''Hi there''
   \<and> final_text (run_final (readFullStream Number_decimal (\<lambda>i. 0)
        (exhausted [Text_delta (Some ''Hi''), Text_delta (Some '' there''), Finish (Some usage3)])))
       = ''Hi there''"
proof -
  have pre: "raised (readFullStream Number_decimal (\<lambda>i. 0)
      (exhausted [Text_delta (Some ''Hi''), Text_delta (Some '' there'')])) = None"
    by (simp add: run_defs)
  have ok: "raised (readFullStream Number_decimal (\<lambda>i. 0)
      (exhausted [Text_delta (Some ''Hi''), Text_delta (Some '' there''), Finish (Some usage3)])) = None"
    by (simp add: run_defs)
  have a: "emitted (readFullStream Number_decimal (\<lambda>i. 0)
      (exhausted [Text_delta (Some ''Hi''), Text_delta (Some '' there'')])) =
      [TEXT_DELTA ''Hi'', TEXT_DELTA '' there'']"
    by (simp add: run_defs)
  have b: "final_reasoning_content (run_final (readFullStream Number_decimal (\<lambda>i. 0)
      (exhausted [Text_delta (Some ''Hi''), Text_delta (Some '' there'')]))) = []"
    by (simp add: run_defs)
  show ?thesis
    using processStream_resolves_to_text_promise[OF pre, of "Inr ''Hi there''" usage3]
      processStream_resolves_to_text_promise[OF ok, of "Inr ''Hi there''" usage3] a b
    by (simp add: exhausted_def or_string_def or_number_def usage3_def)
qed

subsection \<open>Determinism\<close>

text \<open>
  C4 says that two runs over the same upstream sequence emit the same events. A source
  record whose id is not a non-zero number gets \<^verbatim>\<open>Date.now()\<close> as its knowledge
  id, so two runs at different times differ.
\<close>

theorem two_runs_differ_on_source_without_numeric_id:
  "emitted (readFullStream Number_decimal (\<lambda>i. 1000)
      (exhausted [Source_part \<lparr>source_id = ''abc'', source_title = Some ''Doc'', source_url = None\<rparr>]))
     = [KNOWLEDGE_SEARCH_COMPLETE [\<lparr>knowledge_id = 1000, knowledge_content = ''Doc'',
          sourceUrl = [], knowledge_type = ''url''\<rparr>]]
   \<and> emitted (readFullStream Number_decimal (\<lambda>i. 2000)
      (exhausted [Source_part \<lparr>source_id = ''abc'', source_title = Some ''Doc'', source_url = None\<rparr>]))
     = [KNOWLEDGE_SEARCH_COMPLETE [\<lparr>knowledge_id = 2000, knowledge_content = ''Doc'',
          sourceUrl = [], knowledge_type = ''url''\<rparr>]]
   \<and> emitted (readFullStream Number_decimal (\<lambda>i. 1000)
      (exhausted [Source_part \<lparr>source_id = ''abc'', source_title = Some ''Doc'', source_url = None\<rparr>]))
     \<noteq> emitted (readFullStream Number_decimal (\<lambda>i. 2000)
      (exhausted [Source_part \<lparr>source_id = ''abc'', source_title = Some ''Doc'', source_url = None\<rparr>]))"
  by (simp add: run_defs Number_decimal_def)

text \<open>
  C4, as amended. For every stream none of whose source records has an id that
  \<^verbatim>\<open>Number\<close> turns into \<^verbatim>\<open>NaN\<close> or \<open>0\<close>, two runs produce the same events, the
  same accumulator and the same outcome, whatever the clock reads during either run.
\<close>

theorem translation_independent_of_clock:
  assumes "\<forall>c\<in>set (stream_records s). \<not> reads_clock N c"
  shows "readFullStream N clock1 s = readFullStream N clock2 s
       \<and> processStream N clock1 \<lparr>fullStream = Some s, text_promise = t\<rparr>
         = processStream N clock2 \<lparr>fullStream = Some s, text_promise = t\<rparr>"
  using readLoop_clock[OF assms, of clock1 0 "stream_failure s"
      "\<lparr>final_text = [], final_reasoning_content = []\<rparr>" clock2 0]
  by (cases "stream_locked s")
    (simp_all add: readFullStream_def processStream_def getReader_def Let_def)

theorem translation_independent_of_clock_example:
  "readFullStream Number_decimal (\<lambda>i. 1000)
      (exhausted [Source_part \<lparr>source_id = ''42'', source_title = Some ''Doc'', source_url = None\<rparr>,
                  Text_delta (Some ''Hi'')])
   = readFullStream Number_decimal (\<lambda>i. 2000 + int i)
      (exhausted [Source_part \<lparr>source_id = ''42'', source_title = Some ''Doc'', source_url = None\<rparr>,
                  Text_delta (Some ''Hi'')])
   \<and> emitted (readFullStream Number_decimal (\<lambda>i. 1000)
      (exhausted [Source_part \<lparr>source_id = ''42'', source_title = Some ''Doc'', source_url = None\<rparr>,
                  Text_delta (Some ''Hi'')]))
     = [KNOWLEDGE_SEARCH_COMPLETE [\<lparr>knowledge_id = 42, knowledge_content = ''Doc'',
          sourceUrl = [], knowledge_type = ''url''\<rparr>], TEXT_DELTA ''Hi'']"
proof -
  have h: "\<forall>c\<in>set (stream_records
      (exhausted [Source_part \<lparr>source_id = ''42'', source_title = Some ''Doc'', source_url = None\<rparr>,
                  Text_delta (Some ''Hi'')])). \<not> reads_clock Number_decimal c"
    by (simp add: exhausted_def Number_decimal_def or_number_def)
  show ?thesis
    using translation_independent_of_clock[OF h, of "\<lambda>i. 1000" "\<lambda>i. 2000 + int i" "Inr []"]
    by (simp add: run_defs Number_decimal_def)
qed

subsection \<open>Text deltas\<close>

text \<open>
  When every step-finish and finish record of the sequence carries its usage object, the
  \<open>TEXT_DELTA\<close> events a run emits are, in number, order and payload, the fragments of
  the text-delta records of the sequence (a missing fragment reads as the empty string),
  however the stream ends.
\<close>

lemma text_deltas_of_complete_run:
  assumes "\<forall>c\<in>set cs. \<not> usage_absent c"
  shows "text_deltas (emitted (readFullStream N clk
           \<lparr>stream_locked = False, stream_records = cs, stream_failure = fl\<rparr>))
           = text_fragments cs"
  using readLoop_text_deltas[OF assms] by (simp add: emitted_run)

text \<open>
  C5 says that the \<open>TEXT_DELTA\<close> events of every upstream sequence correspond one to
  one to its text-delta records. A step-finish record with no usage object raises and
  ends the loop: the text-delta record after it is never translated, and the sequence
  below, with two text-delta records, emits one \<open>TEXT_DELTA\<close>.
\<close>

theorem text_delta_after_missing_usage_is_lost:
  "emitted (readFullStream N clk
      (exhausted [Text_delta (Some ''a''), Step_finish None, Text_delta (Some ''x'')])) =
     [TEXT_DELTA ''a'']
   \<and> raised (readFullStream N clk
      (exhausted [Text_delta (Some ''a''), Step_finish None, Text_delta (Some ''x'')])) =
     Some (TypeError ''completionTokens'')
   \<and> text_fragments [Text_delta (Some ''a''), Step_finish None, Text_delta (Some ''x'')] =
     [''a'', ''x'']"
  by (simp add: run_defs)

subsection \<open>The reasoning buffer\<close>

text \<open>
  C6. When the records \<open>xs\<close> have been translated without an exception and have left a
  non-empty reasoning buffer, a text-delta record that arrives next emits its
  \<open>TEXT_DELTA\<close> and, immediately after it, one \<open>THINKING_COMPLETE\<close> that carries the
  buffer; the buffer is empty afterwards, and whatever follows in the stream comes after
  these two events.
\<close>

theorem text_delta_flushes_reasoning:
  assumes "raised (readFullStream N clk (exhausted xs)) = None"
      and "final_reasoning_content (run_final (readFullStream N clk (exhausted xs))) \<noteq> []"
  shows "emitted (readFullStream N clk (exhausted (xs @ [Text_delta d]))) =
           emitted (readFullStream N clk (exhausted xs)) @
           [TEXT_DELTA (or_string d []),
            THINKING_COMPLETE (final_reasoning_content (run_final (readFullStream N clk (exhausted xs))))]
       \<and> final_reasoning_content (run_final (readFullStream N clk (exhausted (xs @ [Text_delta d])))) = []
       \<and> (\<exists>later. emitted (readFullStream N clk
                     \<lparr>stream_locked = False, stream_records = xs @ Text_delta d # ys, stream_failure = fl\<rparr>) =
             emitted (readFullStream N clk (exhausted xs)) @
             [TEXT_DELTA (or_string d []),
              THINKING_COMPLETE (final_reasoning_content (run_final (readFullStream N clk (exhausted xs))))]
             @ later)"
proof -
  define f1 where "f1 = run_final (readFullStream N clk (exhausted xs))"
  define o1 where "o1 = emitted (readFullStream N clk (exhausted xs))"
  have L: "readLoop N clk 0 None xs \<lparr>final_text = [], final_reasoning_content = []\<rparr> = (f1, o1, None)"
    unfolding f1_def o1_def by (rule run_prefix[OF assms(1)])
  have b: "final_reasoning_content f1 \<noteq> []"
    using assms(2) by (simp add: f1_def)
  have one: "readFullStream N clk (exhausted (xs @ [Text_delta d])) =
      \<lparr>run_final = fst (readLoop N clk (length xs) None [Text_delta d] f1),
       emitted = o1 @ fst (snd (readLoop N clk (length xs) None [Text_delta d] f1)),
       run_reader = Some \<lparr>lock_held = False, releaseLock_calls = 1\<rparr>,
       raised = snd (snd (readLoop N clk (length xs) None [Text_delta d] f1))\<rparr>"
    unfolding exhausted_def by (rule run_append[OF L])
  have many: "readFullStream N clk \<lparr>stream_locked = False, stream_records = xs @ Text_delta d # ys, stream_failure = fl\<rparr> =
      \<lparr>run_final = fst (readLoop N clk (length xs) fl (Text_delta d # ys) f1),
       emitted = o1 @ fst (snd (readLoop N clk (length xs) fl (Text_delta d # ys) f1)),
       run_reader = Some \<lparr>lock_held = False, releaseLock_calls = 1\<rparr>,
       raised = snd (snd (readLoop N clk (length xs) fl (Text_delta d # ys) f1))\<rparr>"
    by (rule run_append[OF L])
  have e1: "emitted (readFullStream N clk (exhausted (xs @ [Text_delta d]))) =
      o1 @ [TEXT_DELTA (or_string d []), THINKING_COMPLETE (final_reasoning_content f1)]"
    using b by (simp add: one Let_def)
  have e2: "final_reasoning_content (run_final (readFullStream N clk (exhausted (xs @ [Text_delta d])))) = []"
    using b by (simp add: one Let_def)
  have e3: "emitted (readFullStream N clk \<lparr>stream_locked = False, stream_records = xs @ Text_delta d # ys, stream_failure = fl\<rparr>) =
      o1 @ [TEXT_DELTA (or_string d []), THINKING_COMPLETE (final_reasoning_content f1)]
      @ fst (snd (readLoop N clk (Suc (length xs)) fl ys
           (f1\<lparr>final_text := final_text f1 @ or_string d [], final_reasoning_content := []\<rparr>)))"
    using b by (simp add: many Let_def case_prod_beta)
  show ?thesis
    unfolding f1_def[symmetric] o1_def[symmetric] using e1 e2 e3 by blast
qed

theorem text_delta_flushes_reasoning_scenario_B:
  "emitted (readFullStream Number_decimal (\<lambda>i. 0)
      (exhausted ([Reasoning (Some ''because'')] @ [Text_delta (Some ''Answer'')]))) =
     [THINKING_DELTA ''because'', TEXT_DELTA ''Answer'', THINKING_COMPLETE ''because'']"
proof -
  have a: "raised (readFullStream Number_decimal (\<lambda>i. 0) (exhausted [Reasoning (Some ''because'')])) = None"
    by (simp add: run_defs)
  have b: "final_reasoning_content (run_final (readFullStream Number_decimal (\<lambda>i. 0)
             (exhausted [Reasoning (Some ''because'')]))) \<noteq> []"
    by (simp add: run_defs)
  show ?thesis
    using text_delta_flushes_reasoning[OF a b, of "Some ''Answer''" "[]" None]
    by (simp add: run_defs)
qed

text \<open>
  C7 says that every \<open>THINKING_COMPLETE\<close> clears the reasoning buffer. The one a
  reasoning-signature record emits carries the signature and leaves the buffer as it
  was.
\<close>

theorem signature_does_not_clear_buffer:
  "emitted (readFullStream Number_decimal (\<lambda>i. 0)
      (exhausted [Reasoning (Some ''why''), Reasoning_signature (Some ''sig'')])) =
     [THINKING_DELTA ''why'', THINKING_COMPLETE ''sig'']
   \<and> final_reasoning_content (run_final (readFullStream Number_decimal (\<lambda>i. 0)
      (exhausted [Reasoning (Some ''why''), Reasoning_signature (Some ''sig'')]))) = ''why''"
  by (simp add: run_defs)

text \<open>
  C7, as amended. A text-delta step that finds the buffer non-empty emits it in a
  \<open>THINKING_COMPLETE\<close> and clears it; a text-delta step that finds it empty leaves it
  empty and emits no \<open>THINKING_COMPLETE\<close>. No other step clears the buffer: it keeps
  what it held, with at most a fragment appended. A reasoning-signature step emits a
  \<open>THINKING_COMPLETE\<close> that carries the signature and changes nothing in the
  accumulator. These are the only two \<open>THINKING_COMPLETE\<close> events a step emits.
\<close>

theorem reasoning_buffer_cleared_only_by_flush:
  "(final_reasoning_content f \<noteq> [] \<longrightarrow>
      convertAndEmitChunk N now (Text_delta d) f =
        (\<lparr>final_text = final_text f @ or_string d [], final_reasoning_content = []\<rparr>,
         [TEXT_DELTA (or_string d []), THINKING_COMPLETE (final_reasoning_content f)], None))
   \<and> (final_reasoning_content f = [] \<longrightarrow>
      convertAndEmitChunk N now (Text_delta d) f =
        (\<lparr>final_text = final_text f @ or_string d [], final_reasoning_content = []\<rparr>,
         [TEXT_DELTA (or_string d [])], None))
   \<and> ((\<forall>d. c \<noteq> Text_delta d) \<longrightarrow>
      (\<exists>s. final_reasoning_content (fst (convertAndEmitChunk N now c f)) =
             final_reasoning_content f @ s))
   \<and> convertAndEmitChunk N now (Reasoning_signature sg) f =
       (f, [THINKING_COMPLETE (or_string sg [])], None)
   \<and> (THINKING_COMPLETE x \<in> set (fst (snd (convertAndEmitChunk N now c f))) \<longrightarrow>
        ((\<exists>d. c = Text_delta d) \<and> x = final_reasoning_content f \<and> x \<noteq> [])
        \<or> (\<exists>sg. c = Reasoning_signature sg \<and> x = or_string sg []))"
proof -
  have a: "(\<forall>d. c \<noteq> Text_delta d) \<longrightarrow>
      (\<exists>s. final_reasoning_content (fst (convertAndEmitChunk N now c f)) =
             final_reasoning_content f @ s)"
    by (cases c) (auto simp: response_of_def split: option.splits)
  have b: "THINKING_COMPLETE x \<in> set (fst (snd (convertAndEmitChunk N now c f))) \<longrightarrow>
        ((\<exists>d. c = Text_delta d) \<and> x = final_reasoning_content f \<and> x \<noteq> [])
        \<or> (\<exists>sg. c = Reasoning_signature sg \<and> x = or_string sg [])"
    by (cases c) (auto simp: response_of_def Let_def split: option.splits if_splits)
  show ?thesis using a b by (cases f) (simp add: Let_def)
qed

theorem reasoning_buffer_flush_example:
  "convertAndEmitChunk Number_decimal 0 (Text_delta (Some ''A''))
      \<lparr>final_text = [], final_reasoning_content = ''why''\<rparr> =
     (\<lparr>final_text = ''A'', final_reasoning_content = []\<rparr>,
      [TEXT_DELTA ''A'', THINKING_COMPLETE ''why''], None)
   \<and> convertAndEmitChunk Number_decimal 0 (Reasoning_signature (Some ''sig''))
      \<lparr>final_text = [], final_reasoning_content = ''why''\<rparr> =
     (\<lparr>final_text = [], final_reasoning_content = ''why''\<rparr>, [THINKING_COMPLETE ''sig''], None)"
  using reasoning_buffer_cleared_only_by_flush
    [of "\<lparr>final_text = [], final_reasoning_content = ''why''\<rparr>" Number_decimal 0 "Some ''A''"
        "Reasoning_signature (Some ''sig'')" "Some ''sig''" "''sig''"]
  by (simp add: or_string_def)

subsection \<open>Error records\<close>

text \<open>
  C8 says that the \<open>ERROR\<close> event carries the upstream error message, and a generic
  message when the payload is empty. The code hands \<^verbatim>\<open>chunk.error\<close> on as it is:
  an object that holds the message arrives as that object, not as its message, and the
  empty object, being truthy, gets no default.
\<close>

theorem error_payload_object_is_not_unwrapped:
  "convertAndEmitChunk Number_decimal 0
      (Error_part (JObject [(''message'', JString ''rate limited'')]))
      \<lparr>final_text = [], final_reasoning_content = []\<rparr> =
     (\<lparr>final_text = [], final_reasoning_content = []\<rparr>,
      [ERROR (JObject [(''message'', JString ''rate limited'')])], None)
   \<and> ERROR (JObject [(''message'', JString ''rate limited'')]) \<noteq> ERROR (JString ''rate limited'')
   \<and> convertAndEmitChunk Number_decimal 0 (Error_part (JObject []))
      \<lparr>final_text = [], final_reasoning_content = []\<rparr> =
     (\<lparr>final_text = [], final_reasoning_content = []\<rparr>, [ERROR (JObject [])], None)
   \<and> ERROR (JObject []) \<noteq> ERROR (JString ''Unknown error'')"
  by (simp add: or_value_def)

text \<open>
  C8, as amended. An error record emits one \<open>ERROR\<close> event and nothing else: no
  \<open>TEXT_COMPLETE\<close>, no \<open>LLM_RESPONSE_COMPLETE\<close>. The event's message is the upstream
  payload itself, unchanged, whenever the payload is truthy (a non-empty string is that
  string; an object, the empty one too, is that object), and the string
  \<open>''Unknown error''\<close> when the payload is \<^verbatim>\<open>undefined\<close>, \<^verbatim>\<open>null\<close>,
  \<^verbatim>\<open>false\<close>, \<open>0\<close>, \<^verbatim>\<open>NaN\<close> or the empty string. The step raises nothing,
  leaves the accumulator as it was, and the loop goes on with the next record.
\<close>

theorem error_record_emits_one_error_event:
  "convertAndEmitChunk N now (Error_part err) f =
     (f, [ERROR (if truthy err then err else JString ''Unknown error'')], None)
   \<and> (truthy err \<longleftrightarrow>
        err \<notin> {JUndefined, JNull, JBool False, JNumber 0, JNaN, JString []})
   \<and> readLoop N clk i fl (Error_part err # rest) f =
       (case readLoop N clk (Suc i) fl rest f of
          (f2, out2, r) \<Rightarrow>
            (f2, ERROR (if truthy err then err else JString ''Unknown error'') # out2, r))"
  by (cases err) (auto simp: or_value_def)

theorem error_record_scenario_D:
  "readFullStream Number_decimal (\<lambda>i. 0) (exhausted [Error_part (JString ''rate limited'')]) =
     \<lparr>run_final = \<lparr>final_text = [], final_reasoning_content = []\<rparr>,
      emitted = [ERROR (JString ''rate limited'')],
      run_reader = Some \<lparr>lock_held = False, releaseLock_calls = 1\<rparr>,
      raised = None\<rparr>
   \<and> emitted (readFullStream Number_decimal (\<lambda>i. 0) (exhausted [Error_part JUndefined])) =
     [ERROR (JString ''Unknown error'')]"
  using error_record_emits_one_error_event
    [of Number_decimal 0 "JString ''rate limited''" "\<lparr>final_text = [], final_reasoning_content = []\<rparr>"
        "\<lambda>i. 0" 0 None "[]"]
    error_record_emits_one_error_event
    [of Number_decimal 0 JUndefined "\<lparr>final_text = [], final_reasoning_content = []\<rparr>"
        "\<lambda>i. 0" 0 None "[]"]
  by (simp add: run_defs)

subsection \<open>The reader's lock\<close>

text \<open>
  C9 says that whenever a fatal exception leaves \<open>processStream\<close>, the release has been
  executed before. \<^verbatim>\<open>getReader()\<close> stands before the \<^verbatim>\<open>try\<close>: on a stream that
  is locked it throws, and the exception leaves \<open>processStream\<close> with no release.
\<close>

theorem locked_stream_is_not_released:
  "processStream Number_decimal (\<lambda>i. 0)
      \<lparr>fullStream = Some \<lparr>stream_locked = True, stream_records = [Text_delta (Some ''a'')],
                          stream_failure = None\<rparr>,
       text_promise = Inr ''a''\<rparr> =
     \<lparr>sink = [], releases = 0, resolved = Inl (TypeError ''getReader'')\<rparr>"
  by (simp add: run_defs)

text \<open>
  C9, as amended. Once the reader has been acquired, \<^verbatim>\<open>releaseLock\<close> is called
  exactly once on every way out of the loop, and the lock is no longer held: the stream
  reports \<^verbatim>\<open>done\<close>, a read is rejected, a translation step raises, or the stream
  is abandoned after any number of records (cancelled or aborted, which the loop sees as
  an early \<^verbatim>\<open>done\<close> or a rejected read). An exception of the loop leaves
  \<open>processStream\<close> after that release. When the reader cannot be acquired because the
  stream is locked, the \<^verbatim>\<open>TypeError\<close> leaves \<open>processStream\<close> with nothing
  emitted and nothing released.
\<close>

theorem acquired_reader_released_exactly_once:
  "(\<not> stream_locked s \<longrightarrow>
      run_reader (readFullStream N clk s) = Some \<lparr>lock_held = False, releaseLock_calls = 1\<rparr>
      \<and> releases (processStream N clk \<lparr>fullStream = Some s, text_promise = t\<rparr>) = 1
      \<and> releases (processStream N clk
           \<lparr>fullStream = Some (abandoned_after k r s), text_promise = t\<rparr>) = 1)
   \<and> (raised (readFullStream N clk s) = Some e \<longrightarrow>
        resolved (processStream N clk \<lparr>fullStream = Some s, text_promise = t\<rparr>) = Inl e)
   \<and> (stream_locked s \<longrightarrow>
        run_reader (readFullStream N clk s) = None
        \<and> processStream N clk \<lparr>fullStream = Some s, text_promise = t\<rparr> =
            \<lparr>sink = [], releases = 0, resolved = Inl (TypeError ''getReader'')\<rparr>)"
proof -
  have free: "\<not> stream_locked s \<Longrightarrow> \<not> stream_locked (abandoned_after k r s)"
    by (simp add: abandoned_after_def)
  show ?thesis
    using free by (auto simp: reader_run locked_run processStream_def Let_def)
qed

theorem reader_released_on_failure:
  "raised (readFullStream Number_decimal (\<lambda>i. 0)
      \<lparr>stream_locked = False, stream_records = [Text_delta (Some ''a'')],
       stream_failure = Some (Rejected ''network'')\<rparr>)
     = Some (Rejected ''network'')
   \<and> processStream Number_decimal (\<lambda>i. 0)
        \<lparr>fullStream = Some \<lparr>stream_locked = False, stream_records = [Text_delta (Some ''a'')],
                            stream_failure = Some (Rejected ''network'')\<rparr>,
         text_promise = Inr ''a''\<rparr> =
       \<lparr>sink = [TEXT_DELTA ''a''], releases = 1, resolved = Inl (Rejected ''network'')\<rparr>
   \<and> processStream Number_decimal (\<lambda>i. 0)
        \<lparr>fullStream = Some (abandoned_after 1 None
            \<lparr>stream_locked = False,
             stream_records = [Text_delta (Some ''a''), Text_delta (Some ''b'')],
             stream_failure = None\<rparr>),
         text_promise = Inr ''a''\<rparr> =
       \<lparr>sink = [TEXT_DELTA ''a''], releases = 1, resolved = Inr ''a''\<rparr>"
  using acquired_reader_released_exactly_once
    [of "\<lparr>stream_locked = False, stream_records = [Text_delta (Some ''a'')],
          stream_failure = Some (Rejected ''network'')\<rparr>"
        Number_decimal "\<lambda>i. 0" "Inr ''a''" 1 None "Rejected ''network''"]
  by (simp add: run_defs abandoned_after_def)

section \<open>Properties of the client factory\<close>

lemmas registry_defs = initializeProviders_def providers_def registerProvider_def
  provider_config_def getProvider_def isSupported_def cleanup_def

lemma fallback_kept:
  "isSupported reg ''openai-compatible'' \<Longrightarrow>
   isSupported (foldl registerProvider reg cfgs) ''openai-compatible''"
  by (induction cfgs arbitrary: reg) (auto simp: registerProvider_def isSupported_def)

lemma fallback_initial: "isSupported initializeProviders ''openai-compatible''"
  by (simp add: registry_defs)

text \<open>
  C10 says that \<open>createClient\<close> never surfaces an unknown-provider error for an id that
  is not registered. The fallback is looked up like any provider: once
  \<^verbatim>\<open>cleanup()\<close> has emptied the registry, the guard after the lookup throws.
\<close>

theorem fallback_missing_after_cleanup:
  "\<not> isSupported (cleanup initializeProviders) ''my-gateway''
   \<and> createClient (cleanup initializeProviders) stub_import ''my-gateway'' None () =
       ([], Inl (ClientFactoryError
                   (''Provider '' @ quoted ''openai-compatible'' @ '' is not registered'')
                   (Some ''my-gateway'') None))"
  by (simp add: createClient_def Let_def registry_defs)

text \<open>
  C10, as amended. For every id that is not registered, in a registry that holds
  \<open>''openai-compatible''\<close> (the built-in registry does, and so does every registry
  obtained from it by \<^verbatim>\<open>registerProvider\<close>), \<open>createClient\<close> takes the
  configuration registered under \<open>''openai-compatible''\<close> and goes on: it imports that
  configuration's module and nothing else, a failure of the import comes back wrapped by
  the \<^verbatim>\<open>catch\<close> block, and when the module's creator function returns a callable
  provider, the result is the model that provider builds. \<open>getClientInfo\<close> reports
  \<open>isSupported = False\<close> and \<open>effectiveProvider = ''openai-compatible''\<close>.
\<close>

theorem unregistered_provider_falls_back:
  assumes "\<not> isSupported reg providerId"
      and "getProvider reg ''openai-compatible'' = Some cfg"
  shows "fst (createClient reg dynamic_import providerId modelId options) = [import_specifier cfg]
       \<and> (\<forall>e. dynamic_import (import_specifier cfg) = Inl e \<longrightarrow>
            snd (createClient reg dynamic_import providerId modelId options) =
              Inl (catch_createClient providerId e))
       \<and> (\<forall>module creator provider model.
            dynamic_import (import_specifier cfg) = Inr module \<longrightarrow>
            module (creatorFunctionName cfg) = Some (Function creator) \<longrightarrow>
            creator options = Inr (Callable provider) \<longrightarrow>
            provider (case modelId of None \<Rightarrow> ''default'' | Some m \<Rightarrow> m) = Inr model \<longrightarrow>
            snd (createClient reg dynamic_import providerId modelId options) = Inr model)
       \<and> getClientInfo reg providerId =
           \<lparr>info_id = providerId,
            info_name = (if provider_name cfg = [] then providerId else provider_name cfg),
            info_isSupported = False,
            effectiveProvider = ''openai-compatible''\<rparr>
       \<and> isSupported (foldl registerProvider initializeProviders cfgs) ''openai-compatible''"
  using assms fallback_kept[OF fallback_initial, of cfgs]
  by (simp add: createClient_def getClientInfo_def Let_def)

theorem unregistered_provider_example:
  "fst (createClient initializeProviders stub_import ''my-gateway'' None ()) =
     [''@ai-sdk/openai-compatible'']
   \<and> snd (createClient initializeProviders stub_import ''my-gateway'' None ()) =
     Inr ''model default''
   \<and> getClientInfo initializeProviders ''my-gateway'' =
     \<lparr>info_id = ''my-gateway'', info_name = ''OpenAI Compatible'', info_isSupported = False,
      effectiveProvider = ''openai-compatible''\<rparr>"
proof -
  have h1: "\<not> isSupported initializeProviders ''my-gateway''"
    by (simp add: registry_defs)
  have h2: "getProvider initializeProviders ''openai-compatible'' =
      Some (provider_config ''openai-compatible'' ''OpenAI Compatible''
              ''@ai-sdk/openai-compatible'' ''createOpenAICompatible'')"
    by (simp add: registry_defs)
  show ?thesis
    using unregistered_provider_falls_back[OF h1 h2, of stub_import None "()" "[]"]
    by (simp add: provider_config_def stub_import_def)
qed

end
